theory Spec2Isabelle
  imports Complex_Main
begin

section \<open>Untyped values and the schema combinators\<close>

text \<open>
  A JavaScript \<open>number\<close>, as far as this program looks at it: it is compared with
  zero, tested for \<open>NaN\<close> and otherwise passed on. Negative zero is identified with
  zero (the two are equal under \<open>===\<close> and both are falsy).
\<close>

datatype number = Finite rat | Infinity | NegInfinity | NaN

text \<open>
  A value whose type is not known yet (TypeScript's \<open>unknown\<close>): what a form or the
  router hands to a schema. An object is a list of its own properties; reading a
  property that is missing yields \<open>undefined\<close>.
\<close>

datatype unknown =
    JUndefined
  | JNull
  | JBoolean bool
  | JNumber number
  | JString string
  | JArray "unknown list"
  | JObject "(string \<times> unknown) list"

definition getProp :: "(string \<times> unknown) list \<Rightarrow> string \<Rightarrow> unknown" where
  "getProp kvs k = (case map_of kvs k of None \<Rightarrow> JUndefined | Some v \<Rightarrow> v)"

text \<open>
  A schema of the validation library takes an unknown value to a parsed value or
  fails; \<open>None\<close> is the failed parse. \<open>parse\<close> on an object schema throws a
  \<open>ZodError\<close> where a field fails or the input is not an object.
\<close>

type_synonym 'a ZodType = "unknown \<Rightarrow> 'a option"

datatype ZodError = ZodError

definition z_string :: "string ZodType" where
  "z_string v = (case v of JString s \<Rightarrow> Some s | _ \<Rightarrow> None)"

text \<open>\<open>z.number()\<close> accepts every number but \<open>NaN\<close>.\<close>

definition z_number :: "number ZodType" where
  "z_number v = (case v of JNumber n \<Rightarrow> if n = NaN then None else Some n | _ \<Rightarrow> None)"

definition z_optional :: "'a ZodType \<Rightarrow> 'a option ZodType" where
  "z_optional schema v =
     (case v of JUndefined \<Rightarrow> Some None | _ \<Rightarrow> map_option Some (schema v))"

definition z_catch :: "'a ZodType \<Rightarrow> 'a \<Rightarrow> 'a ZodType" where
  "z_catch schema fallback v =
     (case schema v of None \<Rightarrow> Some fallback | Some x \<Rightarrow> Some x)"

text \<open>
  The checks of a string schema run in the order they are written, each on the value
  the one before left; a string counts one \<open>char\<close> per code unit.
\<close>

definition z_min :: "nat \<Rightarrow> string \<Rightarrow> string option" where
  "z_min n s = (if length s < n then None else Some s)"

definition z_max :: "nat \<Rightarrow> string \<Rightarrow> string option" where
  "z_max n s = (if length s > n then None else Some s)"

definition isWhiteSpace :: "char \<Rightarrow> bool" where
  "isWhiteSpace c \<longleftrightarrow>
     c \<in> set [CHR 0x09, CHR 0x0A, CHR 0x0B, CHR 0x0C, CHR 0x0D, CHR 0x20, CHR 0xA0]"

definition trim :: "string \<Rightarrow> string" where
  "trim s = rev (dropWhile isWhiteSpace (rev (dropWhile isWhiteSpace s)))"

definition z_trim :: "string \<Rightarrow> string option" where
  "z_trim s = Some (trim s)"

text \<open>\<open>z.object\<close> with two fields, and \<open>parse\<close> of it.\<close>

definition z_object2 ::
  "string \<Rightarrow> 'a ZodType \<Rightarrow> string \<Rightarrow> 'b ZodType \<Rightarrow> ('a \<Rightarrow> 'b \<Rightarrow> 'c) \<Rightarrow> unknown \<Rightarrow> ZodError + 'c"
where
  "z_object2 k1 schema1 k2 schema2 build v =
     (case v of
        JObject kvs \<Rightarrow>
          (case (schema1 (getProp kvs k1), schema2 (getProp kvs k2)) of
             (Some a, Some b) \<Rightarrow> Inr (build a b)
           | _ \<Rightarrow> Inl ZodError)
      | _ \<Rightarrow> Inl ZodError)"

section \<open>Authentication context (src/services/hooks/auth.tsx)\<close>

text \<open>
  The browser's \<open>localStorage\<close> is a synchronous key-value store of strings:
  \<open>getItem\<close> returns \<open>null\<close> for a missing key, \<open>setItem\<close> overwrites,
  \<open>removeItem\<close> deletes. It is modelled as a partial map that every storage
  function takes and returns.
\<close>

type_synonym Storage = "string \<rightharpoonup> string"

definition getItem :: "string \<Rightarrow> Storage \<Rightarrow> string option" where
  "getItem k ls = ls k"

definition setItem :: "string \<Rightarrow> string \<Rightarrow> Storage \<Rightarrow> Storage" where
  "setItem k v ls = ls(k \<mapsto> v)"

definition removeItem :: "string \<Rightarrow> Storage \<Rightarrow> Storage" where
  "removeItem k ls = ls(k := None)"

text \<open>
  A value of type \<open>string | null\<close> used as a condition is truthy when it is neither
  \<open>null\<close> nor the empty string.
\<close>

fun truthy_string :: "string option \<Rightarrow> bool" where
  "truthy_string None = False"
| "truthy_string (Some s) = (s \<noteq> [])"

definition key :: string where
  "key = ''boilerplate.auth.user''"

definition keyToken :: string where
  "keyToken = ''boilerplate.auth.token''"

definition getStoredUser :: "Storage \<Rightarrow> string option" where
  "getStoredUser ls = getItem key ls"

definition setStoredUser :: "string option \<Rightarrow> Storage \<Rightarrow> Storage" where
  "setStoredUser user ls =
     (if truthy_string user then setItem key (the user) ls else removeItem key ls)"

definition getStoredToken :: "Storage \<Rightarrow> string option" where
  "getStoredToken ls = getItem keyToken ls"

text \<open>
  \<open>setStoredToken\<close> as the source has it: the \<open>else\<close> branch removes \<open>key\<close>, the
  key of the stored user, not \<open>keyToken\<close>.
\<close>

definition setStoredToken :: "string option \<Rightarrow> Storage \<Rightarrow> Storage" where
  "setStoredToken token ls =
     (if truthy_string token then setItem keyToken (the token) ls else removeItem key ls)"

text \<open>
  \<open>LoginType\<close> is the output type of \<open>LoginSchema\<close> (below). The state of \<open>AuthProvider\<close> is
  the two \<open>useState\<close> cells together with the storage they are persisted in; the
  value it provides to its children adds the derived flag \<open>isAuthenticated = !!user\<close>.
\<close>

record LoginType =
  username :: string
  password :: string

text \<open>
  \<open>LoginSchema\<close>: the user name is any string, trimmed; the password is a string of
  3 to 14 code units, trimmed after the two length checks.
\<close>

definition LoginSchema :: "unknown \<Rightarrow> ZodError + LoginType" where
  "LoginSchema =
     z_object2
       ''username'' (\<lambda>v. Option.bind (z_string v) z_trim)
       ''password''
         (\<lambda>v. Option.bind (Option.bind (Option.bind (z_string v) (z_min 3)) (z_max 14)) z_trim)
       (\<lambda>u p. \<lparr>username = u, password = p\<rparr>)"

record AuthProvider_state =
  st_localStorage :: Storage
  st_user :: "string option"
  st_token :: "string option"

record AuthContext =
  isAuthenticated :: bool
  user :: "string option"
  token :: "string option"

text \<open>Mounting the provider: both cells are initialised from storage.\<close>

definition AuthProvider_init :: "Storage \<Rightarrow> AuthProvider_state" where
  "AuthProvider_init ls =
     \<lparr>st_localStorage = ls, st_user = getStoredUser ls, st_token = getStoredToken ls\<rparr>"

definition AuthProvider_value :: "AuthProvider_state \<Rightarrow> AuthContext" where
  "AuthProvider_value s =
     \<lparr>isAuthenticated = truthy_string (st_user s), user = st_user s, token = st_token s\<rparr>"

text \<open>
  \<open>logout\<close> and \<open>login\<close> are the bodies that run once the simulated latency
  (\<open>await sleep\<close>) is over; the statements after the \<open>await\<close> run without interruption,
  so each is one state transformer.
\<close>

definition logout :: "AuthProvider_state \<Rightarrow> AuthProvider_state" where
  "logout s =
     (let s1 = s\<lparr>st_localStorage := setStoredUser None (st_localStorage s)\<rparr>
      in s1\<lparr>st_user := None\<rparr>)"

definition login :: "LoginType \<Rightarrow> string \<Rightarrow> AuthProvider_state \<Rightarrow> AuthProvider_state" where
  "login creds tok s =
     (let s1 = s\<lparr>st_localStorage := setStoredUser (Some (username creds)) (st_localStorage s)\<rparr>;
          s2 = s1\<lparr>st_user := Some (username creds)\<rparr>;
          s3 = s2\<lparr>st_localStorage := setStoredToken (Some tok) (st_localStorage s2)\<rparr>
      in s3\<lparr>st_token := Some tok\<rparr>)"

text \<open>
  \<open>useAuth\<close> reads the React context; outside an \<open>AuthProvider\<close> the context is
  \<open>null\<close> and the hook throws.
\<close>

datatype ContextMissing = ContextMissing

definition useAuth :: "AuthContext option \<Rightarrow> ContextMissing + AuthContext" where
  "useAuth context = (case context of None \<Rightarrow> Inl ContextMissing | Some c \<Rightarrow> Inr c)"

section \<open>The guard of the protected layout (src/routes/_auth.tsx)\<close>

text \<open>
  The component of the layout route \<open>/_auth\<close> returns one of two elements: the login
  form, or the outlet in which the router renders the matched child route. It returns
  an element and does nothing else: it has no access to the router's location.
\<close>

datatype element = AuthComponent | Outlet

definition isAuthenticated_hook :: "AuthContext option \<Rightarrow> ContextMissing + bool" where
  "isAuthenticated_hook context =
     (case useAuth context of Inl e \<Rightarrow> Inl e | Inr auth \<Rightarrow> Inr (isAuthenticated auth))"

definition Route_auth_component :: "AuthContext option \<Rightarrow> ContextMissing + element" where
  "Route_auth_component context =
     (case isAuthenticated_hook context of
        Inl e \<Rightarrow> Inl e
      | Inr b \<Rightarrow> if \<not> b then Inr AuthComponent else Inr Outlet)"

section \<open>Search filters and the posts query (types/Filters.ts, hooks/postsByUser.ts)\<close>

record FilterType =
  userId :: "number option"
  postId :: "number option"

definition FilterSchema :: "unknown \<Rightarrow> ZodError + FilterType" where
  "FilterSchema =
     z_object2
       ''userId'' (z_catch (z_optional z_number) None)
       ''postId'' (z_catch (z_optional z_number) None)
       (\<lambda>u p. \<lparr>userId = u, postId = p\<rparr>)"

text \<open>
  A field of type \<open>number | undefined\<close> used as a condition is truthy when it is
  present, not zero and not \<open>NaN\<close>.
\<close>

fun truthy_number :: "number option \<Rightarrow> bool" where
  "truthy_number None = False"
| "truthy_number (Some n) = (n \<noteq> Finite 0 \<and> n \<noteq> NaN)"

text \<open>
  The result of the query is tagged \<open>error\<close> (with one post, the placeholder) or
  \<open>success\<close> (with the posts fetched).
\<close>

datatype 'p ReturnUserPostType = error 'p | success "'p list"

text \<open>
  \<open>GetUserPostById\<close>. The HTTP client (\<open>@services/Axios\<close>), the schema of a post
  (\<open>@services/types/Posts\<close>) and the placeholder post come from other modules and are
  parameters here: \<open>api_get path params\<close> is the outcome of the request (\<open>Inl\<close> a rejected
  promise, \<open>Inr\<close> the \<open>data\<close> of the response), \<open>safeParse\<close> is
  \<open>PostSchema.array().safeParse\<close> (\<open>None\<close> where \<open>success\<close> is false). The function
  returns its result (\<open>Inl\<close> when the promise rejects) together with the requests it
  has sent, in order.
\<close>

type_synonym request = "string \<times> FilterType"

definition GetUserPostById ::
  "(string \<Rightarrow> FilterType \<Rightarrow> 'e + 'd) \<Rightarrow> ('d \<Rightarrow> 'p list option) \<Rightarrow> 'p \<Rightarrow> FilterType
     \<Rightarrow> ('e + 'p ReturnUserPostType) \<times> request list"
where
  "GetUserPostById api_get safeParse placeholderPost filter' =
     (if \<not> truthy_number (postId filter') \<and> \<not> truthy_number (userId filter')
      then (Inr (error placeholderPost), [])
      else
        (case api_get ''posts'' filter' of
           Inl e \<Rightarrow> (Inl e, [(''posts'', filter')])
         | Inr data \<Rightarrow>
             (case safeParse data of
                None \<Rightarrow> (Inr (error placeholderPost), [(''posts'', filter')])
              | Some validatedPost \<Rightarrow> (Inr (success validatedPost), [(''posts'', filter')]))))"

text \<open>
  \<open>UserPostById\<close> builds the options that the route's loader passes to the query
  cache: the key of the cache entry and the function the cache calls to fill it.
\<close>

record ('e, 'p) queryOptions =
  queryKey :: "string \<times> FilterType"
  queryFn :: "unit \<Rightarrow> ('e + 'p ReturnUserPostType) \<times> request list"

definition UserPostById ::
  "(string \<Rightarrow> FilterType \<Rightarrow> 'e + 'd) \<Rightarrow> ('d \<Rightarrow> 'p list option) \<Rightarrow> 'p \<Rightarrow> FilterType
     \<Rightarrow> ('e, 'p) queryOptions"
where
  "UserPostById api_get safeParse placeholderPost filter' =
     \<lparr>queryKey = (''posts-by-user'', filter'),
      queryFn = (\<lambda>_. GetUserPostById api_get safeParse placeholderPost filter')\<rparr>"

text \<open>
  Writing a filter into the search of a navigation, as the links and the filter form do
  (\<open>search={{ postId: post.id, userId: post.userId }}\<close>): an absent field is written
  as \<open>undefined\<close>.
\<close>

definition search_of :: "FilterType \<Rightarrow> unknown" where
  "search_of f =
     JObject
       [(''postId'', case postId f of None \<Rightarrow> JUndefined | Some n \<Rightarrow> JNumber n),
        (''userId'', case userId f of None \<Rightarrow> JUndefined | Some n \<Rightarrow> JNumber n)]"

section \<open>Properties of the authentication context\<close>

lemma key_neq_keyToken: "key \<noteq> keyToken"
  by (simp add: key_def keyToken_def)

text \<open>
  C7. Clearing the token (\<open>setStoredToken(null)\<close>) removes the entry of the stored user
  and leaves the entry of the stored token as it was.
\<close>

theorem setStoredToken_null_removes_user_key:
  "setStoredToken None ls = removeItem key ls
   \<and> getStoredUser (setStoredToken None ls) = None
   \<and> getStoredToken (setStoredToken None ls) = getStoredToken ls"
  using key_neq_keyToken
  by (simp add: setStoredToken_def removeItem_def getStoredUser_def getStoredToken_def
      getItem_def)

theorem setStoredToken_null_removes_user_key_witness:
  "getStoredUser (setStoredToken None [key \<mapsto> ''admin'', keyToken \<mapsto> ''t0'']) = None
   \<and> getStoredToken (setStoredToken None [key \<mapsto> ''admin'', keyToken \<mapsto> ''t0'']) = Some ''t0''"
  using setStoredToken_null_removes_user_key [of "[key \<mapsto> ''admin'', keyToken \<mapsto> ''t0'']"]
    key_neq_keyToken
  by (simp add: getStoredToken_def getStoredUser_def getItem_def removeItem_def)

text \<open>
  C10. \<open>logout\<close> changes the user only: the stored user is removed and the user cell is
  set to \<open>null\<close>, while the token cell and the stored token keep their values.
\<close>

theorem logout_keeps_token:
  "logout s = s\<lparr>st_localStorage := removeItem key (st_localStorage s), st_user := None\<rparr>
   \<and> token (AuthProvider_value (logout s)) = token (AuthProvider_value s)
   \<and> getStoredToken (st_localStorage (logout s)) = getStoredToken (st_localStorage s)
   \<and> user (AuthProvider_value (logout s)) = None
   \<and> getStoredUser (st_localStorage (logout s)) = None"
  using key_neq_keyToken
  by (simp add: logout_def setStoredUser_def removeItem_def AuthProvider_value_def
      getStoredToken_def getStoredUser_def getItem_def)

theorem logout_keeps_token_witness:
  "token (AuthProvider_value (logout (AuthProvider_init [key \<mapsto> ''admin'', keyToken \<mapsto> ''t0'']))) = Some ''t0''
   \<and> getStoredToken (st_localStorage (logout (AuthProvider_init [key \<mapsto> ''admin'', keyToken \<mapsto> ''t0'']))) = Some ''t0''
   \<and> user (AuthProvider_value (logout (AuthProvider_init [key \<mapsto> ''admin'', keyToken \<mapsto> ''t0'']))) = None"
  using logout_keeps_token [of "AuthProvider_init [key \<mapsto> ''admin'', keyToken \<mapsto> ''t0'']"]
    key_neq_keyToken
  by (simp add: AuthProvider_init_def AuthProvider_value_def getStoredToken_def
      getStoredUser_def getItem_def removeItem_def)

text \<open>
  C2. With a context that is not authenticated the guard returns the login form, with
  an authenticated one it returns the outlet of the nested route; nothing else decides.
\<close>

theorem guard_renders_login_or_outlet:
  "(\<not> isAuthenticated auth \<longrightarrow> Route_auth_component (Some auth) = Inr AuthComponent)
   \<and> (isAuthenticated auth \<longrightarrow> Route_auth_component (Some auth) = Inr Outlet)"
  by (simp add: Route_auth_component_def isAuthenticated_hook_def useAuth_def)

theorem guard_renders_login_or_outlet_witness:
  "\<not> isAuthenticated (AuthProvider_value (AuthProvider_init Map.empty))
   \<and> Route_auth_component (Some (AuthProvider_value (AuthProvider_init Map.empty)))
       = Inr AuthComponent
   \<and> isAuthenticated (AuthProvider_value (AuthProvider_init [key \<mapsto> ''admin'']))
   \<and> Route_auth_component (Some (AuthProvider_value (AuthProvider_init [key \<mapsto> ''admin''])))
       = Inr Outlet"
  using guard_renders_login_or_outlet [of "AuthProvider_value (AuthProvider_init Map.empty)"]
    guard_renders_login_or_outlet [of "AuthProvider_value (AuthProvider_init [key \<mapsto> ''admin''])"]
  by (simp add: AuthProvider_value_def AuthProvider_init_def getStoredUser_def getItem_def)

text \<open>
  C3. Credentials that \<open>LoginSchema\<close> accepts may carry an empty user name (the schema
  sets no minimal length), and a user that is the empty string is falsy: after such a
  login the session is not authenticated.
\<close>

theorem login_empty_username_counterexample:
  "LoginSchema (JObject [(''username'', JString ''''), (''password'', JString ''admin'')])
     = Inr \<lparr>username = '''', password = ''admin''\<rparr>
   \<and> isAuthenticated (AuthProvider_value
        (login \<lparr>username = '''', password = ''admin''\<rparr> ''skajdksjakdj'' (AuthProvider_init Map.empty)))
       = False"
  by (simp add: LoginSchema_def z_object2_def getProp_def z_string_def z_trim_def z_min_def
      z_max_def trim_def isWhiteSpace_def login_def AuthProvider_value_def Let_def)

text \<open>
  C3, amended. For credentials accepted by \<open>LoginSchema\<close> whose user name is not empty:
  after \<open>login\<close> the session is authenticated and its user is the user name of the
  credentials; after \<open>logout\<close>, from any state, the session is not authenticated.
\<close>

theorem login_then_authenticated:
  assumes "LoginSchema raw = Inr creds" and "username creds \<noteq> []"
  shows "isAuthenticated (AuthProvider_value (login creds tok s))
     \<and> user (AuthProvider_value (login creds tok s)) = Some (username creds)
     \<and> \<not> isAuthenticated (AuthProvider_value (logout s'))"
  using assms(2)
  by (simp add: login_def logout_def AuthProvider_value_def Let_def)

theorem login_then_authenticated_witness:
  "LoginSchema (JObject [(''username'', JString '' admin ''), (''password'', JString ''admin'')])
     = Inr \<lparr>username = ''admin'', password = ''admin''\<rparr>
   \<and> username \<lparr>username = ''admin'', password = ''admin''\<rparr> \<noteq> []
   \<and> isAuthenticated (AuthProvider_value
        (login \<lparr>username = ''admin'', password = ''admin''\<rparr> ''skajdksjakdj'' (AuthProvider_init Map.empty)))
   \<and> user (AuthProvider_value
        (login \<lparr>username = ''admin'', password = ''admin''\<rparr> ''skajdksjakdj'' (AuthProvider_init Map.empty)))
       = Some ''admin''
   \<and> \<not> isAuthenticated (AuthProvider_value
        (logout (login \<lparr>username = ''admin'', password = ''admin''\<rparr> ''skajdksjakdj''
           (AuthProvider_init Map.empty))))"
proof -
  have h: "LoginSchema (JObject [(''username'', JString '' admin ''), (''password'', JString ''admin'')])
     = Inr \<lparr>username = ''admin'', password = ''admin''\<rparr>"
    by (simp add: LoginSchema_def z_object2_def getProp_def z_string_def z_trim_def z_min_def
        z_max_def trim_def isWhiteSpace_def)
  show ?thesis
    using h login_then_authenticated [OF h, of "''skajdksjakdj''" "AuthProvider_init Map.empty"
        "login \<lparr>username = ''admin'', password = ''admin''\<rparr> ''skajdksjakdj'' (AuthProvider_init Map.empty)"]
    by simp
qed

section \<open>Properties of the search filter and of the posts query\<close>

text \<open>
  C6. Validating the search parameters of a URL never throws: the result is always a
  filter, in which a field is present exactly when the parameter of that name is a
  number other than \<open>NaN\<close>; a missing parameter and one of any other kind both
  give an absent field.
\<close>

theorem FilterSchema_coerces_to_absent:
  "FilterSchema (JObject search) =
     Inr \<lparr>userId = (case getProp search ''userId'' of
                      JNumber n \<Rightarrow> if n = NaN then None else Some n | _ \<Rightarrow> None),
          postId = (case getProp search ''postId'' of
                      JNumber n \<Rightarrow> if n = NaN then None else Some n | _ \<Rightarrow> None)\<rparr>"
  by (simp add: FilterSchema_def z_object2_def z_catch_def z_optional_def z_number_def
      split: unknown.splits option.splits)

theorem FilterSchema_coerces_to_absent_witness:
  "FilterSchema (JObject [(''userId'', JString ''abc''), (''postId'', JNumber (Finite 7)),
       (''page'', JNumber (Finite 2))])
     = Inr \<lparr>userId = None, postId = Some (Finite 7)\<rparr>
   \<and> FilterSchema (JObject [(''userId'', JNumber NaN), (''postId'', JNull)])
     = Inr \<lparr>userId = None, postId = None\<rparr>
   \<and> FilterSchema (JObject []) = Inr \<lparr>userId = None, postId = None\<rparr>"
  using FilterSchema_coerces_to_absent [of "[(''userId'', JString ''abc''),
        (''postId'', JNumber (Finite 7)), (''page'', JNumber (Finite 2))]"]
    FilterSchema_coerces_to_absent [of "[(''userId'', JNumber NaN), (''postId'', JNull)]"]
    FilterSchema_coerces_to_absent [of "[]"]
  by (simp add: getProp_def)

text \<open>
  A filter without \<open>NaN\<close> written into a search and validated again is the same
  filter.
\<close>

lemma FilterSchema_search_of:
  assumes "userId f \<noteq> Some NaN" and "postId f \<noteq> Some NaN"
  shows "FilterSchema (search_of f) = Inr f"
  using assms
  by (simp add: FilterSchema_def search_of_def z_object2_def getProp_def z_catch_def
      z_optional_def z_number_def split: option.splits)

text \<open>
  C4. With both fields of the filter absent, the query function sends no request and
  returns the placeholder post tagged \<open>error\<close>.
\<close>

theorem GetUserPostById_no_filter:
  assumes "userId f = None" and "postId f = None"
  shows "GetUserPostById api_get safeParse placeholderPost f = (Inr (error placeholderPost), [])
     \<and> queryFn (UserPostById api_get safeParse placeholderPost f) ()
         = (Inr (error placeholderPost), [])"
  using assms by (simp add: GetUserPostById_def UserPostById_def)

theorem GetUserPostById_no_filter_witness:
  "userId \<lparr>userId = None, postId = None\<rparr> = None \<and> postId \<lparr>userId = None, postId = None\<rparr> = None
   \<and> GetUserPostById (\<lambda>path params. Inr (JArray []) :: unit + unknown)
        (\<lambda>d. case d of JArray xs \<Rightarrow> Some xs | _ \<Rightarrow> None) (JString ''placeholder'')
        \<lparr>userId = None, postId = None\<rparr>
      = (Inr (error (JString ''placeholder'')), [])
   \<and> queryFn (UserPostById (\<lambda>path params. Inr (JArray []) :: unit + unknown)
        (\<lambda>d. case d of JArray xs \<Rightarrow> Some xs | _ \<Rightarrow> None) (JString ''placeholder'')
        \<lparr>userId = None, postId = None\<rparr>) ()
      = (Inr (error (JString ''placeholder'')), [])"
  using GetUserPostById_no_filter [of "\<lparr>userId = None, postId = None\<rparr>"
      "\<lambda>path params. Inr (JArray []) :: unit + unknown"
      "\<lambda>d. case d of JArray xs \<Rightarrow> Some xs | _ \<Rightarrow> None" "JString ''placeholder''"]
  by simp

text \<open>
  C9. A filter whose only field is an identifier equal to zero is treated as the empty
  filter: no request is sent and the result is the placeholder post tagged \<open>error\<close>.
\<close>

theorem GetUserPostById_zero_id:
  assumes "(userId f = Some (Finite 0) \<and> postId f = None)
         \<or> (userId f = None \<and> postId f = Some (Finite 0))"
  shows "GetUserPostById api_get safeParse placeholderPost f = (Inr (error placeholderPost), [])
     \<and> queryFn (UserPostById api_get safeParse placeholderPost f) ()
         = (Inr (error placeholderPost), [])"
  using assms by (auto simp add: GetUserPostById_def UserPostById_def)

theorem GetUserPostById_zero_id_witness:
  "GetUserPostById (\<lambda>path params. Inr (JArray [JString ''post'']) :: unit + unknown)
        (\<lambda>d. case d of JArray xs \<Rightarrow> Some xs | _ \<Rightarrow> None) (JString ''placeholder'')
        \<lparr>userId = Some (Finite 0), postId = None\<rparr>
      = (Inr (error (JString ''placeholder'')), [])
   \<and> GetUserPostById (\<lambda>path params. Inr (JArray [JString ''post'']) :: unit + unknown)
        (\<lambda>d. case d of JArray xs \<Rightarrow> Some xs | _ \<Rightarrow> None) (JString ''placeholder'')
        \<lparr>userId = None, postId = Some (Finite 0)\<rparr>
      = (Inr (error (JString ''placeholder'')), [])"
  using GetUserPostById_zero_id [of "\<lparr>userId = Some (Finite 0), postId = None\<rparr>"
      "\<lambda>path params. Inr (JArray [JString ''post'']) :: unit + unknown"
      "\<lambda>d. case d of JArray xs \<Rightarrow> Some xs | _ \<Rightarrow> None" "JString ''placeholder''"]
    GetUserPostById_zero_id [of "\<lparr>userId = None, postId = Some (Finite 0)\<rparr>"
      "\<lambda>path params. Inr (JArray [JString ''post'']) :: unit + unknown"
      "\<lambda>d. case d of JArray xs \<Rightarrow> Some xs | _ \<Rightarrow> None" "JString ''placeholder''"]
  by simp

text \<open>
  C5. When the request is sent and answered with a payload that the schema of posts
  rejects, the query function returns normally, with the placeholder post tagged
  \<open>error\<close>; the payload is not part of the result.
\<close>

theorem GetUserPostById_invalid_payload:
  assumes "truthy_number (postId f) \<or> truthy_number (userId f)"
    and "api_get ''posts'' f = Inr payload"
    and "safeParse payload = None"
  shows "GetUserPostById api_get safeParse placeholderPost f
           = (Inr (error placeholderPost), [(''posts'', f)])
     \<and> queryFn (UserPostById api_get safeParse placeholderPost f) ()
           = (Inr (error placeholderPost), [(''posts'', f)])"
  using assms by (auto simp add: GetUserPostById_def UserPostById_def)

theorem GetUserPostById_invalid_payload_witness:
  "truthy_number (userId \<lparr>userId = Some (Finite 3), postId = None\<rparr>)
   \<and> GetUserPostById (\<lambda>path params. Inr (JString ''<html>'') :: unit + unknown)
        (\<lambda>d. case d of JArray xs \<Rightarrow> Some xs | _ \<Rightarrow> None) (JString ''placeholder'')
        \<lparr>userId = Some (Finite 3), postId = None\<rparr>
      = (Inr (error (JString ''placeholder'')),
         [(''posts'', \<lparr>userId = Some (Finite 3), postId = None\<rparr>)])"
  using GetUserPostById_invalid_payload [of "\<lparr>userId = Some (Finite 3), postId = None\<rparr>"
      "\<lambda>path params. Inr (JString ''<html>'') :: unit + unknown" "JString ''<html>''"
      "\<lambda>d. case d of JArray xs \<Rightarrow> Some xs | _ \<Rightarrow> None" "JString ''placeholder''"]
  by simp

end
